theory Spec2Isabelle
  imports Complex_Main
begin

section \<open>Python values\<close>

text \<open>
  The validators of \<^verbatim>\<open>utils/validators.py\<close> are dynamically typed: each one receives
  an arbitrary Python object and inspects it with \<^verbatim>\<open>isinstance\<close>. The objects that
  reach them are modelled by \<open>pyval\<close>.

  A Python \<^verbatim>\<open>float\<close> is a finite binary fraction, an infinity or NaN. The validators
  only compare floats, they never compute with them, and a comparison of a float with an
  \<^verbatim>\<open>int\<close> or with another float is exact in Python. So a finite float is modelled by
  its exact rational value (every float is one; a statement about every rational covers
  every float) and the three special values are kept apart.
\<close>

datatype pyfloat = Fin rat | PosInf | NegInf | NaN

record datetime =
  dt_year :: int
  dt_month :: int
  dt_day :: int
  dt_hour :: int
  dt_minute :: int
  dt_second :: int
  dt_microsecond :: int

text \<open>
  Three kinds of objects are instances of \<^verbatim>\<open>datetime\<close>: an instant without time zone
  (\<open>PDatetime\<close>, its fields as written), an instant with a time zone
  (\<open>PAwareDatetime\<close>, its fields converted to UTC and its offset in minutes), and
  \<^verbatim>\<open>NaT\<close>, which pandas puts where a column of times has no value (\<open>PNaT\<close>).
\<close>

datatype pyval =
    PNone
  | PBool bool
  | PInt int
  | PFloat pyfloat
  | PStr string
  | PDatetime datetime
  | PAwareDatetime datetime int
  | PNaT

text \<open>
  \<^verbatim>\<open>isinstance(x, (int, float))\<close>: \<^verbatim>\<open>bool\<close> is a subclass of \<^verbatim>\<open>int\<close>, with
  \<^verbatim>\<open>False == 0\<close> and \<^verbatim>\<open>True == 1\<close>. \<open>num_of\<close> gives the number an object stands
  for in a comparison, \<open>None\<close> when it is not an instance of \<^verbatim>\<open>int\<close> or \<^verbatim>\<open>float\<close>.
\<close>

fun num_of :: "pyval \<Rightarrow> pyfloat option" where
  "num_of (PBool b) = Some (Fin (if b then 1 else 0))"
| "num_of (PInt i) = Some (Fin (of_int i))"
| "num_of (PFloat f) = Some f"
| "num_of PNone = None"
| "num_of (PStr s) = None"
| "num_of (PDatetime d) = None"
| "num_of (PAwareDatetime d offset) = None"
| "num_of PNaT = None"

definition is_number :: "pyval \<Rightarrow> bool" where
  "is_number x = (num_of x \<noteq> None)"

text \<open>The order of Python numbers: every comparison with NaN is false.\<close>

fun num_lt :: "pyfloat \<Rightarrow> pyfloat \<Rightarrow> bool" where
  "num_lt NaN y = False"
| "num_lt x NaN = False"
| "num_lt (Fin a) (Fin b) = (a < b)"
| "num_lt (Fin a) PosInf = True"
| "num_lt (Fin a) NegInf = False"
| "num_lt PosInf y = False"
| "num_lt NegInf (Fin b) = True"
| "num_lt NegInf PosInf = True"
| "num_lt NegInf NegInf = False"

fun num_eq :: "pyfloat \<Rightarrow> pyfloat \<Rightarrow> bool" where
  "num_eq NaN y = False"
| "num_eq x NaN = False"
| "num_eq x y = (x = y)"

definition num_gt :: "pyfloat \<Rightarrow> pyfloat \<Rightarrow> bool" where
  "num_gt x y = num_lt y x"

definition num_le :: "pyfloat \<Rightarrow> pyfloat \<Rightarrow> bool" where
  "num_le x y = (num_lt x y \<or> num_eq x y)"

definition num_ge :: "pyfloat \<Rightarrow> pyfloat \<Rightarrow> bool" where
  "num_ge x y = num_le y x"

text \<open>
  The comparisons the validators write, \<^verbatim>\<open>x < 30\<close> and so on, on objects already known
  to be numbers. On any other object Python raises; no validator compares before its
  \<^verbatim>\<open>isinstance\<close> check, and the model gives \<open>False\<close> there.
\<close>

definition py_lt :: "pyval \<Rightarrow> pyval \<Rightarrow> bool" where
  "py_lt x y = (case (num_of x, num_of y) of (Some a, Some b) \<Rightarrow> num_lt a b | _ \<Rightarrow> False)"

definition py_gt :: "pyval \<Rightarrow> pyval \<Rightarrow> bool" where
  "py_gt x y = (case (num_of x, num_of y) of (Some a, Some b) \<Rightarrow> num_gt a b | _ \<Rightarrow> False)"

definition py_le :: "pyval \<Rightarrow> pyval \<Rightarrow> bool" where
  "py_le x y = (case (num_of x, num_of y) of (Some a, Some b) \<Rightarrow> num_le a b | _ \<Rightarrow> False)"

definition py_ge :: "pyval \<Rightarrow> pyval \<Rightarrow> bool" where
  "py_ge x y = (case (num_of x, num_of y) of (Some a, Some b) \<Rightarrow> num_ge a b | _ \<Rightarrow> False)"

section \<open>Verdicts\<close>

text \<open>
  Every validator returns a dictionary with the keys \<^verbatim>\<open>valid\<close> and \<^verbatim>\<open>message\<close> and,
  depending on the validator and the branch, some of \<^verbatim>\<open>warning\<close>, \<^verbatim>\<open>warnings\<close>,
  \<^verbatim>\<open>parsed_timestamp\<close>, \<^verbatim>\<open>errors\<close>, \<^verbatim>\<open>total_errors\<close> and \<^verbatim>\<open>total_warnings\<close>.
  An optional key is an \<open>option\<close> field: \<open>None\<close> when the dictionary has no such key.
\<close>

record verdict =
  valid :: bool
  message :: string
  warning :: "string option"
  warnings :: "string list option"
  parsed_timestamp :: "pyval option"
  errors :: "string list option"
  total_errors :: "nat option"
  total_warnings :: "nat option"

definition mk_verdict :: "bool \<Rightarrow> string \<Rightarrow> verdict" where
  "mk_verdict v m =
     \<lparr>valid = v, message = m, warning = None, warnings = None, parsed_timestamp = None,
      errors = None, total_errors = None, total_warnings = None\<rparr>"

section \<open>Validators of the health metrics\<close>

definition validate_heart_rate :: "pyval \<Rightarrow> verdict" where
  "validate_heart_rate heart_rate =
     (if \<not> is_number heart_rate then mk_verdict False ''Heart rate must be a number''
      else if py_lt heart_rate (PInt 30) then mk_verdict False ''Heart rate too low (minimum 30 BPM)''
      else if py_gt heart_rate (PInt 200) then mk_verdict False ''Heart rate too high (maximum 200 BPM)''
      else mk_verdict True ''Valid heart rate'')"

definition validate_blood_pressure :: "pyval \<Rightarrow> pyval \<Rightarrow> verdict" where
  "validate_blood_pressure systolic diastolic =
     (if \<not> is_number systolic \<or> \<not> is_number diastolic
        then mk_verdict False ''Blood pressure values must be numbers''
      else if py_lt systolic (PInt 70)
        then mk_verdict False ''Systolic pressure too low (minimum 70 mmHg)''
      else if py_gt systolic (PInt 250)
        then mk_verdict False ''Systolic pressure too high (maximum 250 mmHg)''
      else if py_lt diastolic (PInt 40)
        then mk_verdict False ''Diastolic pressure too low (minimum 40 mmHg)''
      else if py_gt diastolic (PInt 150)
        then mk_verdict False ''Diastolic pressure too high (maximum 150 mmHg)''
      else if py_ge diastolic systolic
        then mk_verdict False ''Diastolic pressure must be lower than systolic pressure''
      else if py_lt systolic (PInt 90) \<and> py_lt diastolic (PInt 60)
        then (mk_verdict True ''Valid blood pressure (low normal)'')
               \<lparr>warning := Some ''Blood pressure is in the low range''\<rparr>
      else if py_ge systolic (PInt 140) \<or> py_ge diastolic (PInt 90)
        then (mk_verdict True ''Valid blood pressure (high)'')
               \<lparr>warning := Some ''Blood pressure is in the high range''\<rparr>
      else mk_verdict True ''Valid blood pressure'')"

definition validate_energy_level :: "pyval \<Rightarrow> verdict" where
  "validate_energy_level energy_level =
     (if \<not> is_number energy_level then mk_verdict False ''Energy level must be a number''
      else if py_lt energy_level (PInt 1) then mk_verdict False ''Energy level must be at least 1''
      else if py_gt energy_level (PInt 10) then mk_verdict False ''Energy level must be at most 10''
      else mk_verdict True ''Valid energy level'')"

text \<open>
  \<^verbatim>\<open>validate_health_metrics\<close>: the three checks in the order of the source, each followed
  by its early return; then the warnings, appended in the order of the source; the key
  \<^verbatim>\<open>warnings\<close> is set only when the list is not empty.
\<close>

definition metric_warnings :: "verdict \<Rightarrow> pyval \<Rightarrow> pyval \<Rightarrow> string list" where
  "metric_warnings bp_validation heart_rate energy_level =
     (case warning bp_validation of Some w \<Rightarrow> [w] | None \<Rightarrow> [])
     @ (if py_ge energy_level (PInt 8) \<and> py_lt heart_rate (PInt 60)
        then [''High energy level with low heart rate - please verify readings''] else [])
     @ (if py_le energy_level (PInt 3) \<and> py_gt heart_rate (PInt 100)
        then [''Low energy with high heart rate - consider medical consultation''] else [])"

definition validate_health_metrics :: "pyval \<Rightarrow> pyval \<Rightarrow> pyval \<Rightarrow> pyval \<Rightarrow> verdict" where
  "validate_health_metrics heart_rate systolic_bp diastolic_bp energy_level =
     (let hr_validation = validate_heart_rate heart_rate in
      if \<not> valid hr_validation then hr_validation
      else
        let bp_validation = validate_blood_pressure systolic_bp diastolic_bp in
        if \<not> valid bp_validation then bp_validation
        else
          let energy_validation = validate_energy_level energy_level in
          if \<not> valid energy_validation then energy_validation
          else
            let ws = metric_warnings bp_validation heart_rate energy_level;
                result = mk_verdict True ''All health metrics are valid''
            in if ws \<noteq> [] then result\<lparr>warnings := Some ws\<rparr> else result)"

section \<open>Strings and exceptions\<close>

text \<open>
  A Python \<^verbatim>\<open>str\<close> is a sequence of code points; the model uses \<open>string\<close>, one
  \<open>char\<close> for each code point below 256. \<open>str_nat\<close> is \<^verbatim>\<open>str\<close> on a non-negative
  \<^verbatim>\<open>int\<close>, as the f-strings of the source apply it to counts and row numbers.
\<close>

definition digit_char :: "nat \<Rightarrow> char" where
  "digit_char d = ''0123456789'' ! d"

fun str_nat :: "nat \<Rightarrow> string" where
  "str_nat n = (if n < 10 then [digit_char n] else str_nat (n div 10) @ [digit_char (n mod 10)])"

declare str_nat.simps [simp del]

definition str_int :: "int \<Rightarrow> string" where
  "str_int i = (if i < 0 then CHR ''-'' # str_nat (nat (- i)) else str_nat (nat i))"




text \<open>
  The exceptions that the modelled code can raise, each with the text \<^verbatim>\<open>str(e)\<close> gives.
  The text of a \<^verbatim>\<open>ValueError\<close> is the standard library's and is carried along.
\<close>

datatype exn = ValueError string | KeyError string | TypeError string


definition try_bind :: "exn + 'a \<Rightarrow> ('a \<Rightarrow> exn + 'b) \<Rightarrow> exn + 'b" where
  "try_bind m f = (case m of Inl e \<Rightarrow> Inl e | Inr x \<Rightarrow> f x)"

text \<open>A dictionary with string keys, and \<^verbatim>\<open>d[k]\<close>, which raises on a missing key.\<close>

type_synonym pydict = "(string \<times> pyval) list"

definition getitem :: "pydict \<Rightarrow> string \<Rightarrow> exn + pyval" where
  "getitem d k = (case map_of d k of Some v \<Rightarrow> Inr v | None \<Rightarrow> Inl (KeyError k))"

section \<open>Dates and times\<close>

text \<open>
  The record \<open>datetime\<close> is an instant without time zone, as \<^verbatim>\<open>datetime.now()\<close> and
  \<^verbatim>\<open>strptime\<close> with the two formats of the source produce it. Two such instants
  compare by year, month, day, hour, minute, second and microsecond, in this order.
\<close>

definition dt_key :: "datetime \<Rightarrow> int list" where
  "dt_key t = [dt_year t, dt_month t, dt_day t, dt_hour t, dt_minute t, dt_second t,
               dt_microsecond t]"

fun lex_less :: "int list \<Rightarrow> int list \<Rightarrow> bool" where
  "lex_less (a # as) (b # bs) = (a < b \<or> (a = b \<and> lex_less as bs))"
| "lex_less [] (b # bs) = True"
| "lex_less as [] = False"

definition dt_less :: "datetime \<Rightarrow> datetime \<Rightarrow> bool" where
  "dt_less a b = lex_less (dt_key a) (dt_key b)"

definition is_leap :: "int \<Rightarrow> bool" where
  "is_leap y = (y mod 4 = 0 \<and> (y mod 100 \<noteq> 0 \<or> y mod 400 = 0))"

definition days_in_month :: "int \<Rightarrow> int \<Rightarrow> int" where
  "days_in_month y m =
     (if m = 2 then (if is_leap y then 29 else 28)
      else if m = 4 \<or> m = 6 \<or> m = 9 \<or> m = 11 then 30
      else 31)"

text \<open>
  The constructor call \<^verbatim>\<open>datetime(year, month, day)\<close>: midnight of that date, or a
  \<^verbatim>\<open>ValueError\<close> when the three numbers are not a date of the calendar
  (\<^verbatim>\<open>MINYEAR = 1\<close>, \<^verbatim>\<open>MAXYEAR = 9999\<close>).
\<close>

definition datetime_new :: "int \<Rightarrow> int \<Rightarrow> int \<Rightarrow> exn + datetime" where
  "datetime_new y m d =
     (if y < 1 \<or> 9999 < y then Inl (ValueError (''year '' @ str_int y @ '' is out of range''))
      else if m < 1 \<or> 12 < m then Inl (ValueError ''month must be in 1..12'')
      else if d < 1 \<or> days_in_month y m < d then Inl (ValueError ''day is out of range for month'')
      else Inr \<lparr>dt_year = y, dt_month = m, dt_day = d, dt_hour = 0, dt_minute = 0,
                dt_second = 0, dt_microsecond = 0\<rparr>)"

section \<open>Validator of the timestamp\<close>

text \<open>
  \<^verbatim>\<open>validate_timestamp\<close> reads the clock and calls \<^verbatim>\<open>datetime.strptime\<close>. Both are made
  explicit: \<open>now\<close> is what \<^verbatim>\<open>datetime.now()\<close> returns during the call, and \<open>strptime\<close>
  is the standard library's parser, a function of the text and the format that gives
  \<open>None\<close> where the library raises \<^verbatim>\<open>ValueError\<close>. Nothing is assumed about it.
\<close>

type_synonym parser = "string \<Rightarrow> string \<Rightarrow> datetime option"

text \<open>
  The first part of \<^verbatim>\<open>validate_timestamp\<close>, up to the clock. For a text in one of the
  two formats and for a datetime object without time zone it binds \<^verbatim>\<open>parsed_timestamp\<close>
  to an instant (\<open>Inr\<close>). Otherwise it returns a verdict early, or it binds a datetime
  object that is not such an instant: one with a time zone, or \<^verbatim>\<open>NaT\<close>.
\<close>

datatype early = Return verdict | Aware_object pyval | NaT_object

definition parse_timestamp :: "parser \<Rightarrow> pyval \<Rightarrow> early + datetime" where
  "parse_timestamp strptime timestamp =
     (case timestamp of
        PStr s \<Rightarrow>
          (case strptime s ''%Y-%m-%d %H:%M:%S'' of
             Some parsed \<Rightarrow> Inr parsed
           | None \<Rightarrow>
               (case strptime s ''%Y-%m-%d %H:%M'' of
                  Some parsed \<Rightarrow> Inr parsed
                | None \<Rightarrow> Inl (Return (mk_verdict False
                    ''Invalid timestamp format. Use YYYY-MM-DD HH:MM:SS or YYYY-MM-DD HH:MM''))))
      | PDatetime d \<Rightarrow> Inr d
      | PAwareDatetime d offset \<Rightarrow> Inl (Aware_object timestamp)
      | PNaT \<Rightarrow> Inl NaT_object
      | _ \<Rightarrow> Inl (Return (mk_verdict False ''Timestamp must be a string or datetime object'')))"

text \<open>
  The second part. \<open>now\<close> has no time zone, so \<^verbatim>\<open>parsed_timestamp > now\<close> raises
  \<^verbatim>\<open>TypeError\<close> for an object with a time zone. Every comparison with \<^verbatim>\<open>NaT\<close> is false:
  for \<^verbatim>\<open>NaT\<close> neither test returns, and only the constructor call between them can
  end the validation.
\<close>

definition validate_timestamp :: "parser \<Rightarrow> datetime \<Rightarrow> pyval \<Rightarrow> exn + verdict" where
  "validate_timestamp strptime now timestamp =
     (case parse_timestamp strptime timestamp of
        Inl (Return verdict) \<Rightarrow> Inr verdict
      | Inl (Aware_object obj) \<Rightarrow>
          Inl (TypeError (''can'' @ [CHR 0x27]
                            @ ''t compare offset-naive and offset-aware datetimes''))
      | Inl NaT_object \<Rightarrow>
          try_bind (datetime_new (dt_year now - 10) (dt_month now) (dt_day now))
            (\<lambda>ten_years_ago.
               Inr ((mk_verdict True ''Valid timestamp'')\<lparr>parsed_timestamp := Some PNaT\<rparr>))
      | Inr parsed_ts \<Rightarrow>
          if dt_less now parsed_ts
            then Inr (mk_verdict False ''Timestamp cannot be in the future'')
          else
            try_bind (datetime_new (dt_year now - 10) (dt_month now) (dt_day now))
              (\<lambda>ten_years_ago.
                 if dt_less parsed_ts ten_years_ago
                   then Inr (mk_verdict False ''Timestamp cannot be more than 10 years ago'')
                 else Inr ((mk_verdict True ''Valid timestamp'')
                             \<lparr>parsed_timestamp := Some (PDatetime parsed_ts)\<rparr>)))"

text \<open>
  A parser that rejects every text. It stands in for \<open>strptime\<close> where a
  \<^verbatim>\<open>datetime\<close> object is validated: for such an object the parser is never called.
\<close>

definition no_strptime :: parser where
  "no_strptime text format = None"

section \<open>Validators of the person and the notes\<close>








section \<open>Validator of a whole entry\<close>



section \<open>Tables\<close>

text \<open>
  A pandas \<^verbatim>\<open>DataFrame\<close> with the default index \<^verbatim>\<open>0, 1, 2, ...\<close>: the column labels in
  order and the rows in order. A row maps a column label to its cell. A missing value is
  a cell too: the float NaN, or \<open>PNaT\<close> in a column of times. A label without a cell,
  as \<^verbatim>\<open>pd.concat\<close> leaves it for a key that the new row lacks, reads as NaN.
\<close>

type_synonym row = "string \<rightharpoonup> pyval"

record dataframe =
  columns :: "string list"
  rows :: "row list"

definition cell :: "row \<Rightarrow> string \<Rightarrow> pyval" where
  "cell r c = (case r c of Some v \<Rightarrow> v | None \<Rightarrow> PFloat NaN)"

text \<open>\<^verbatim>\<open>df.empty\<close>: some axis has length 0.\<close>

definition df_empty :: "dataframe \<Rightarrow> bool" where
  "df_empty df = (rows df = [] \<or> columns df = [])"

text \<open>
  \<^verbatim>\<open>==\<close> of two objects: numbers (booleans among them) by value, with NaN equal to
  nothing; \<^verbatim>\<open>NaT\<close> equal to nothing; two instants with time zones when they are the same
  instant; otherwise objects of the same kind with the same content. A column compared
  with a scalar is compared cell by cell.
\<close>

definition py_eq :: "pyval \<Rightarrow> pyval \<Rightarrow> bool" where
  "py_eq x y =
     (case (num_of x, num_of y) of
        (Some a, Some b) \<Rightarrow> num_eq a b
      | (None, None) \<Rightarrow>
          (case (x, y) of
             (PNaT, other) \<Rightarrow> False
           | (other, PNaT) \<Rightarrow> False
           | (PAwareDatetime a offset_a, PAwareDatetime b offset_b) \<Rightarrow> a = b
           | (a, b) \<Rightarrow> a = b)
      | _ \<Rightarrow> False)"

definition py_ne :: "pyval \<Rightarrow> pyval \<Rightarrow> bool" where
  "py_ne x y = (\<not> py_eq x y)"

section \<open>Validator of an imported table\<close>







section \<open>The store\<close>

text \<open>
  \<^verbatim>\<open>DataHandler\<close> keeps no table in memory: its state is the file \<^verbatim>\<open>self.csv_file\<close>.
  What \<^verbatim>\<open>load_data\<close> can find there: no file, a file of size 0, a file that
  \<^verbatim>\<open>pd.read_csv\<close> rejects with an exception, or a file of comma-separated text. Such a
  file is described by a table from which \<^verbatim>\<open>to_csv(self.csv_file, index=False)\<close> writes
  it: \<open>Csv df\<close> is the file written from \<open>df\<close>.
\<close>

datatype csv_file = Missing | Empty_file | Corrupt | Csv dataframe

text \<open>
  Two operations of pandas decide what the store does with the types of its cells, and
  both are kept as they are in the library: they are parameters of the model, and
  nothing is assumed about them.
  \<^item> \<open>read_back pd df\<close> is the table that \<^verbatim>\<open>pd.read_csv\<close> returns for the file written
    from \<open>df\<close>. It need not be \<open>df\<close>: the file holds text only, and \<^verbatim>\<open>read_csv\<close>
    infers the type of every column anew.
  \<^item> \<open>loc_set pd df index key value\<close> is \<^verbatim>\<open>df.loc[index, key] = value\<close> for a column
    \<open>key\<close> of \<open>df\<close>: the table afterwards, or the exception pandas raises when it
    refuses the value for the type of the column.
\<close>

record pandas =
  read_back :: "dataframe \<Rightarrow> dataframe"
  loc_set :: "dataframe \<Rightarrow> nat \<Rightarrow> string \<Rightarrow> pyval \<Rightarrow> exn + dataframe"

definition self_columns :: "string list" where
  "self_columns = [''person_id'', ''timestamp'', ''heart_rate'', ''systolic_bp'',
                   ''diastolic_bp'', ''energy_level'', ''notes'']"

definition empty_frame :: dataframe where
  "empty_frame = \<lparr>columns = self_columns, rows = []\<rparr>"

text \<open>One round of the loop in \<^verbatim>\<open>load_data\<close> that adds the columns a file lacks.\<close>

definition backfill_column :: "dataframe \<Rightarrow> string \<Rightarrow> dataframe" where
  "backfill_column df col =
     (if col \<notin> set (columns df)
      then \<lparr>columns = columns df @ [col],
            rows = map (\<lambda>r. r(col \<mapsto> (if col = ''notes'' then PStr [] else PInt 0))) (rows df)\<rparr>
      else df)"

definition load_data :: "pandas \<Rightarrow> csv_file \<Rightarrow> dataframe" where
  "load_data pd file =
     (case file of
        Csv df \<Rightarrow> foldl backfill_column (read_back pd df) self_columns
      | Corrupt \<Rightarrow> empty_frame
      | Missing \<Rightarrow> empty_frame
      | Empty_file \<Rightarrow> empty_frame)"

text \<open>
  The duplicate check of \<^verbatim>\<open>add_entry\<close>: the mask over the rows, then \<^verbatim>\<open>.any()\<close>.
  \<^verbatim>\<open>entry_data['person_id']\<close> raises when the dictionary has no such key.
\<close>

definition duplicate_any :: "dataframe \<Rightarrow> pydict \<Rightarrow> exn + bool" where
  "duplicate_any df entry_data =
     try_bind (getitem entry_data ''person_id'') (\<lambda>pid.
     try_bind (getitem entry_data ''timestamp'') (\<lambda>ts.
       Inr (list_ex (\<lambda>r. py_eq (cell r ''person_id'') pid \<and> py_eq (cell r ''timestamp'') ts)
              (rows df))))"

text \<open>
  \<^verbatim>\<open>pd.concat([df, pd.DataFrame([entry_data])], ignore_index=True)\<close>: the new row goes
  last; keys of the dictionary that are not yet columns become columns, after the others.
\<close>

definition concat_entry :: "dataframe \<Rightarrow> pydict \<Rightarrow> dataframe" where
  "concat_entry df entry_data =
     \<lparr>columns = columns df @ filter (\<lambda>k. k \<notin> set (columns df)) (map fst entry_data),
      rows = rows df @ [map_of entry_data]\<rparr>"

text \<open>
  Each operation returns the file it leaves and its result. Every exception inside is
  caught by the operation, which then returns \<^verbatim>\<open>False\<close>. In \<^verbatim>\<open>add_entry\<close> the message
  logged after the write reads \<^verbatim>\<open>entry_data['person_id']\<close>: without that key the file
  is written and the result is \<^verbatim>\<open>False\<close>.
\<close>

definition add_entry :: "pandas \<Rightarrow> csv_file \<Rightarrow> pydict \<Rightarrow> csv_file \<times> bool" where
  "add_entry pd file entry_data =
     (let df = load_data pd file in
      case (if \<not> df_empty df then duplicate_any df entry_data else Inr False) of
        Inl e \<Rightarrow> (file, False)
      | Inr True \<Rightarrow> (file, False)
      | Inr False \<Rightarrow>
          (let written = Csv (concat_entry df entry_data) in
           case getitem entry_data ''person_id'' of
             Inl e \<Rightarrow> (written, False)
           | Inr pid \<Rightarrow> (written, True)))"

text \<open>
  The loop of \<^verbatim>\<open>update_entry\<close> over the items of the dictionary: a key that is a column
  of the table is assigned, any other key is passed over; an assignment that raises
  ends the loop.
\<close>

fun update_loop :: "pandas \<Rightarrow> nat \<Rightarrow> pydict \<Rightarrow> dataframe \<Rightarrow> exn + dataframe" where
  "update_loop pd index [] df = Inr df"
| "update_loop pd index ((key, v) # rest) df =
     (if key \<in> set (columns df)
      then try_bind (loc_set pd df index key v) (update_loop pd index rest)
      else update_loop pd index rest df)"

definition update_entry :: "pandas \<Rightarrow> csv_file \<Rightarrow> int \<Rightarrow> pydict \<Rightarrow> csv_file \<times> bool" where
  "update_entry pd file index updated_data =
     (let df = load_data pd file in
      if index < 0 \<or> index \<ge> int (length (rows df)) then (file, False)
      else
        case update_loop pd (nat index) updated_data df of
          Inl e \<Rightarrow> (file, False)
        | Inr updated \<Rightarrow> (Csv updated, True))"

definition delete_person_data :: "pandas \<Rightarrow> csv_file \<Rightarrow> pyval \<Rightarrow> csv_file \<times> bool" where
  "delete_person_data pd file person_id =
     (let df = load_data pd file in
      (Csv (df\<lparr>rows := filter (\<lambda>r. py_ne (cell r ''person_id'') person_id) (rows df)\<rparr>), True))"

text \<open>
  An assignment that pandas takes as it is replaces one cell and nothing else
  (\<open>set_cell\<close>). \<open>plain_assignments\<close> says that every assignment the loop makes for a
  dictionary is of this kind, and \<open>plain_update\<close> is the table the loop then ends with.
\<close>

definition set_cell :: "dataframe \<Rightarrow> nat \<Rightarrow> string \<Rightarrow> pyval \<Rightarrow> dataframe" where
  "set_cell df i key v = df\<lparr>rows := (rows df)[i := ((rows df) ! i)(key \<mapsto> v)]\<rparr>"



text \<open>
  The record that the data entry page and the import page hand to \<^verbatim>\<open>add_entry\<close>: the
  person and the time as text (\<^verbatim>\<open>strftime('%Y-%m-%d %H:%M:%S')\<close>), the measurements as
  integers, the notes as text.
\<close>

record entry =
  rec_person_id :: string
  rec_timestamp :: string
  rec_heart_rate :: int
  rec_systolic_bp :: int
  rec_diastolic_bp :: int
  rec_energy_level :: int
  rec_notes :: string

definition entry_dict :: "entry \<Rightarrow> pydict" where
  "entry_dict r =
     [(''person_id'', PStr (rec_person_id r)),
      (''timestamp'', PStr (rec_timestamp r)),
      (''heart_rate'', PInt (rec_heart_rate r)),
      (''systolic_bp'', PInt (rec_systolic_bp r)),
      (''diastolic_bp'', PInt (rec_diastolic_bp r)),
      (''energy_level'', PInt (rec_energy_level r)),
      (''notes'', PStr (rec_notes r))]"

text \<open>A stored row equals a record in every field.\<close>

definition row_equals :: "row \<Rightarrow> entry \<Rightarrow> bool" where
  "row_equals stored r =
     (stored ''person_id'' = Some (PStr (rec_person_id r))
      \<and> stored ''timestamp'' = Some (PStr (rec_timestamp r))
      \<and> stored ''heart_rate'' = Some (PInt (rec_heart_rate r))
      \<and> stored ''systolic_bp'' = Some (PInt (rec_systolic_bp r))
      \<and> stored ''diastolic_bp'' = Some (PInt (rec_diastolic_bp r))
      \<and> stored ''energy_level'' = Some (PInt (rec_energy_level r))
      \<and> stored ''notes'' = Some (PStr (rec_notes r)))"

text \<open>The table that \<^verbatim>\<open>add_entry\<close> writes for a record when the store has no row yet.\<close>

definition written_table :: "entry \<Rightarrow> dataframe" where
  "written_table r = \<lparr>columns = self_columns, rows = [map_of (entry_dict r)]\<rparr>"

section \<open>What the loop over the rows collects\<close>







section \<open>Example records and what pandas makes of them\<close>

text \<open>
  The record of the spec's first scenario, with empty notes; the same record for a
  person whose id is all digits (a valid id: digits are among the characters
  \<^verbatim>\<open>validate_person_id\<close> accepts); the same record with notes.
\<close>

definition example_entry :: entry where
  "example_entry =
     \<lparr>rec_person_id = ''john_doe'', rec_timestamp = ''2024-01-01 08:00:00'',
      rec_heart_rate = 70, rec_systolic_bp = 120, rec_diastolic_bp = 80,
      rec_energy_level = 5, rec_notes = []\<rparr>"

definition digits_entry :: entry where
  "digits_entry = example_entry\<lparr>rec_person_id := ''12345''\<rparr>"


text \<open>
  What \<^verbatim>\<open>pd.read_csv\<close> returns for the files written from the one-row tables of the
  first two records: the empty notes come back as a missing value, NaN, and the id
  \<^verbatim>\<open>12345\<close> comes back as an integer.
\<close>

definition example_reread :: dataframe where
  "example_reread =
     \<lparr>columns = self_columns,
      rows = [(map_of (entry_dict example_entry))(''notes'' \<mapsto> PFloat NaN)]\<rparr>"

definition digits_reread :: dataframe where
  "digits_reread =
     \<lparr>columns = self_columns,
      rows = [(map_of (entry_dict digits_entry))
                (''person_id'' \<mapsto> PInt 12345, ''notes'' \<mapsto> PFloat NaN)]\<rparr>"

text \<open>
  A library for the examples. It reads a table back cell by cell: an empty text as NaN,
  a text of digits as the integer, any other cell as it is. pandas does so for a table in
  which every column holds integers only, empty texts only, texts of digits only, or
  texts that are no numbers, no truth values and no words for a missing value. It
  refuses a text for a column of numbers, as pandas 3 does, and takes every other
  assignment as it is.
\<close>

definition is_digit :: "char \<Rightarrow> bool" where
  "is_digit c = (let n = (of_char c :: nat) in 48 \<le> n \<and> n \<le> 57)"

definition nat_of_digits :: "string \<Rightarrow> nat" where
  "nat_of_digits s = foldl (\<lambda>n c. 10 * n + (of_char c - 48)) 0 s"

fun read_back_cell :: "pyval \<Rightarrow> pyval" where
  "read_back_cell (PStr s) =
     (if s = [] then PFloat NaN
      else if list_all is_digit s then PInt (int (nat_of_digits s))
      else PStr s)"
| "read_back_cell PNone = PFloat NaN"
| "read_back_cell v = v"

definition is_text :: "pyval \<Rightarrow> bool" where
  "is_text v = (case v of PStr s \<Rightarrow> True | _ \<Rightarrow> False)"

definition example_pandas :: pandas where
  "example_pandas =
     \<lparr>read_back = (\<lambda>df. df\<lparr>rows := map (\<lambda>r c. map_option read_back_cell (r c)) (rows df)\<rparr>),
      loc_set = (\<lambda>df index key v.
        if is_text v \<and> list_all (\<lambda>r. is_number (cell r key)) (rows df)
        then Inl (TypeError ''Invalid value for dtype'')
        else Inr (set_cell df index key v))\<rparr>"


section \<open>Properties of the metric validators\<close>

lemma valid_mk_verdict: "valid (mk_verdict v m) = v"
  by (simp add: mk_verdict_def)

lemma is_number_simps:
  "is_number (PInt i)" "is_number (PBool b)" "is_number (PFloat f)"
  "\<not> is_number PNone" "\<not> is_number (PStr s)" "\<not> is_number (PDatetime d)"
  "\<not> is_number (PAwareDatetime d offset)" "\<not> is_number PNaT"
  by (simp_all add: is_number_def)

lemma py_cmp_Fin:
  "num_of x = Some (Fin a) \<Longrightarrow> py_lt x (PInt k) = (a < of_int k)"
  "num_of x = Some (Fin a) \<Longrightarrow> py_gt x (PInt k) = (of_int k < a)"
  "num_of x = Some (Fin a) \<Longrightarrow> py_ge x (PInt k) = (of_int k \<le> a)"
  "num_of x = Some (Fin a) \<Longrightarrow> py_le x (PInt k) = (a \<le> of_int k)"
  by (auto simp: py_lt_def py_gt_def py_ge_def py_le_def num_gt_def num_ge_def num_le_def)

lemma py_ge_Fin_Fin:
  "num_of x = Some (Fin a) \<Longrightarrow> num_of y = Some (Fin b) \<Longrightarrow> py_ge x y = (b \<le> a)"
  by (auto simp: py_ge_def num_ge_def num_le_def)

lemma validate_heart_rate_finite:
  "num_of x = Some (Fin q) \<Longrightarrow> valid (validate_heart_rate x) = (30 \<le> q \<and> q \<le> 200)"
  by (auto simp: validate_heart_rate_def valid_mk_verdict py_cmp_Fin is_number_def)

lemma validate_energy_level_finite:
  "num_of x = Some (Fin q) \<Longrightarrow> valid (validate_energy_level x) = (1 \<le> q \<and> q \<le> 10)"
  by (auto simp: validate_energy_level_def valid_mk_verdict py_cmp_Fin is_number_def)

text \<open>
  On numbers other than NaN and the infinities, \<^verbatim>\<open>validate_blood_pressure\<close> accepts
  exactly the pairs inside both ranges with the diastolic value below the systolic one.
\<close>

lemma validate_blood_pressure_finite:
  "num_of s = Some (Fin a) \<Longrightarrow> num_of d = Some (Fin b) \<Longrightarrow>
   valid (validate_blood_pressure s d)
     = (70 \<le> a \<and> a \<le> 250 \<and> 40 \<le> b \<and> b \<le> 150 \<and> b < a)"
  by (auto simp: validate_blood_pressure_def valid_mk_verdict py_cmp_Fin py_ge_Fin_Fin
      is_number_def)

lemma validate_blood_pressure_not_number:
  "\<not> is_number s \<or> \<not> is_number d \<Longrightarrow> \<not> valid (validate_blood_pressure s d)"
  by (auto simp: validate_blood_pressure_def valid_mk_verdict)

text \<open>
  Claim C2. \<^verbatim>\<open>validate_blood_pressure(sys, dia)\<close> should return \<^verbatim>\<open>valid=true\<close> only
  when \<^verbatim>\<open>70 <= sys <= 250\<close>, \<^verbatim>\<open>40 <= dia <= 150\<close> and \<^verbatim>\<open>dia < sys\<close>. The code at the
  float NaN for both values: each of its range tests is a comparison with NaN, which is
  false, so no test rejects the pair and the verdict is valid, although NaN is in neither
  range and is not below itself.
\<close>

theorem validate_blood_pressure_nan:
  "validate_blood_pressure (PFloat NaN) (PFloat NaN) = mk_verdict True ''Valid blood pressure''
   \<and> is_number (PFloat NaN)
   \<and> \<not> py_ge (PFloat NaN) (PInt 70) \<and> \<not> py_le (PFloat NaN) (PInt 250)
   \<and> \<not> py_ge (PFloat NaN) (PInt 40) \<and> \<not> py_le (PFloat NaN) (PInt 150)
   \<and> \<not> py_lt (PFloat NaN) (PFloat NaN)"
  by (simp add: validate_blood_pressure_def is_number_def py_lt_def py_gt_def py_ge_def
      py_le_def num_gt_def num_ge_def num_le_def)

theorem validate_blood_pressure_nan_witness:
  "valid (validate_blood_pressure (PFloat NaN) (PFloat NaN))"
  using validate_blood_pressure_nan by (simp add: valid_mk_verdict)

text \<open>
  Claim C10. The validators of the numeric fields accept every number inside the bounds,
  whole or not: a heart rate \<open>q\<close> with \<open>30 \<le> q \<le> 200\<close> and an energy level \<open>r\<close> with
  \<open>1 \<le> r \<le> 10\<close>, given as \<^verbatim>\<open>int\<close>, \<^verbatim>\<open>bool\<close> or \<^verbatim>\<open>float\<close>, are valid; in particular
  \<^verbatim>\<open>validate_heart_rate(70.5)\<close> and \<^verbatim>\<open>validate_energy_level(7.5)\<close> return the valid
  verdict.
\<close>

theorem numeric_validators_accept_fractions:
  "(num_of x = Some (Fin q) \<and> 30 \<le> q \<and> q \<le> 200 \<longrightarrow> valid (validate_heart_rate x))
   \<and> (num_of y = Some (Fin r) \<and> 1 \<le> r \<and> r \<le> 10 \<longrightarrow> valid (validate_energy_level y))
   \<and> validate_heart_rate (PFloat (Fin (141 / 2))) = mk_verdict True ''Valid heart rate''
   \<and> validate_energy_level (PFloat (Fin (15 / 2))) = mk_verdict True ''Valid energy level''"
proof -
  have hr: "validate_heart_rate (PFloat (Fin (141 / 2))) = mk_verdict True ''Valid heart rate''"
    by (simp add: validate_heart_rate_def is_number_def py_lt_def py_gt_def num_gt_def)
  have en: "validate_energy_level (PFloat (Fin (15 / 2))) = mk_verdict True ''Valid energy level''"
    by (simp add: validate_energy_level_def is_number_def py_lt_def py_gt_def num_gt_def)
  show ?thesis
    using hr en by (simp add: validate_heart_rate_finite validate_energy_level_finite)
qed

theorem numeric_validators_accept_fractions_witness:
  "num_of (PFloat (Fin (141 / 2))) = Some (Fin (141 / 2)) \<and> (30::rat) \<le> 141 / 2 \<and> (141 / 2 :: rat) \<le> 200
   \<and> valid (validate_heart_rate (PFloat (Fin (141 / 2))))
   \<and> num_of (PInt 7) = Some (Fin 7) \<and> (1::rat) \<le> 7 \<and> (7::rat) \<le> 10
   \<and> valid (validate_energy_level (PInt 7))"
  using numeric_validators_accept_fractions [of "PFloat (Fin (141 / 2))" "141 / 2" "PInt 7" 7]
  by (simp add: valid_mk_verdict)

text \<open>
  Claim C3. \<^verbatim>\<open>validate_health_metrics\<close> is valid exactly when the three checks are; when
  one fails it returns, unchanged, the verdict of the first that fails in the order heart
  rate, blood pressure, energy level.
\<close>

theorem validate_health_metrics_first_failure:
  "(valid (validate_health_metrics hr s d e)
      = (valid (validate_heart_rate hr) \<and> valid (validate_blood_pressure s d)
         \<and> valid (validate_energy_level e)))
   \<and> (\<not> valid (validate_heart_rate hr)
        \<longrightarrow> validate_health_metrics hr s d e = validate_heart_rate hr)
   \<and> (valid (validate_heart_rate hr) \<and> \<not> valid (validate_blood_pressure s d)
        \<longrightarrow> validate_health_metrics hr s d e = validate_blood_pressure s d)
   \<and> (valid (validate_heart_rate hr) \<and> valid (validate_blood_pressure s d)
        \<and> \<not> valid (validate_energy_level e)
        \<longrightarrow> validate_health_metrics hr s d e = validate_energy_level e)"
  by (simp add: validate_health_metrics_def Let_def valid_mk_verdict)

theorem validate_health_metrics_first_failure_witness:
  "\<not> valid (validate_heart_rate (PInt 29))
   \<and> validate_health_metrics (PInt 29) (PInt 60) (PInt 80) (PInt 11) = validate_heart_rate (PInt 29)
   \<and> valid (validate_heart_rate (PInt 70)) \<and> \<not> valid (validate_blood_pressure (PInt 120) (PInt 125))
   \<and> validate_health_metrics (PInt 70) (PInt 120) (PInt 125) (PInt 11)
       = validate_blood_pressure (PInt 120) (PInt 125)
   \<and> valid (validate_blood_pressure (PInt 120) (PInt 80)) \<and> \<not> valid (validate_energy_level (PInt 11))
   \<and> validate_health_metrics (PInt 70) (PInt 120) (PInt 80) (PInt 11) = validate_energy_level (PInt 11)"
proof -
  have a: "\<not> valid (validate_heart_rate (PInt 29))"
    by (simp add: validate_heart_rate_finite)
  have b: "valid (validate_heart_rate (PInt 70))"
    by (simp add: validate_heart_rate_finite)
  have c: "\<not> valid (validate_blood_pressure (PInt 120) (PInt 125))"
    by (simp add: validate_blood_pressure_finite)
  have d: "valid (validate_blood_pressure (PInt 120) (PInt 80))"
    by (simp add: validate_blood_pressure_finite)
  have e: "\<not> valid (validate_energy_level (PInt 11))"
    by (simp add: validate_energy_level_finite)
  show ?thesis
    using a b c d e
      validate_health_metrics_first_failure [of "PInt 29" "PInt 60" "PInt 80" "PInt 11"]
      validate_health_metrics_first_failure [of "PInt 70" "PInt 120" "PInt 125" "PInt 11"]
      validate_health_metrics_first_failure [of "PInt 70" "PInt 120" "PInt 80" "PInt 11"]
    by simp
qed

section \<open>Properties of the timestamp validator\<close>

lemma lex_less_irrefl: "\<not> lex_less xs xs"
  by (induction xs) auto

lemma dt_less_irrefl: "\<not> dt_less a a"
  by (simp add: dt_less_def lex_less_irrefl)

lemma leap_minus_ten: "is_leap y \<Longrightarrow> \<not> is_leap (y - 10)"
  unfolding is_leap_def by presburger

lemma datetime_new_leap_day:
  "is_leap y \<Longrightarrow> 10 < y \<Longrightarrow> y \<le> 9999 \<Longrightarrow>
   datetime_new (y - 10) 2 29 = Inl (ValueError ''day is out of range for month'')"
  using leap_minus_ten [of y] by (simp add: datetime_new_def days_in_month_def)

lemma days_in_month_minus_ten:
  "\<not> (m = 2 \<and> d = 29) \<Longrightarrow> d \<le> days_in_month y m \<Longrightarrow> d \<le> days_in_month (y - 10) m"
  by (auto simp: days_in_month_def split: if_splits)

text \<open>
  On every day but 29 February the date ten years earlier exists, and the bound the code
  builds is its midnight.
\<close>

lemma datetime_new_ten_years_before:
  assumes "datetime_new y m d = Inr n" "10 < y" "\<not> (m = 2 \<and> d = 29)"
  shows "datetime_new (y - 10) m d =
      Inr \<lparr>dt_year = y - 10, dt_month = m, dt_day = d, dt_hour = 0, dt_minute = 0,
            dt_second = 0, dt_microsecond = 0\<rparr>"
proof -
  from assms(1) have r: "1 \<le> y" "y \<le> 9999" "1 \<le> m" "m \<le> 12" "1 \<le> d" "d \<le> days_in_month y m"
    by (auto simp: datetime_new_def split: if_splits)
  from days_in_month_minus_ten [OF assms(3) r(6)] have "d \<le> days_in_month (y - 10) m" .
  with r assms(2) show ?thesis by (simp add: datetime_new_def)
qed

lemma validate_timestamp_parsed:
  assumes "parse_timestamp strptime ts = Inr p"
    and "datetime_new (dt_year now - 10) (dt_month now) (dt_day now) = Inr t"
  shows "validate_timestamp strptime now ts =
     Inr (if dt_less now p then mk_verdict False ''Timestamp cannot be in the future''
          else if dt_less p t then mk_verdict False ''Timestamp cannot be more than 10 years ago''
          else (mk_verdict True ''Valid timestamp'')\<lparr>parsed_timestamp := Some (PDatetime p)\<rparr>)"
  using assms by (simp add: validate_timestamp_def try_bind_def)

lemma validate_timestamp_future:
  assumes "parse_timestamp strptime ts = Inr p" and "dt_less now p"
  shows "validate_timestamp strptime now ts
           = Inr (mk_verdict False ''Timestamp cannot be in the future'')"
  using assms by (simp add: validate_timestamp_def)

lemma parse_timestamp_datetime: "parse_timestamp strptime (PDatetime d) = Inr d"
  by (simp add: parse_timestamp_def)

text \<open>
  The timestamps that parse to an instant are the texts that \<open>strptime\<close> accepts in one
  of the two formats and the datetime objects without time zone; a datetime object with
  a time zone makes the validator raise.
\<close>

lemma parse_timestamp_instant:
  "(parse_timestamp strptime ts = Inr p) =
     (ts = PDatetime p
      \<or> (\<exists>s. ts = PStr s
              \<and> (strptime s ''%Y-%m-%d %H:%M:%S'' = Some p
                   \<or> (strptime s ''%Y-%m-%d %H:%M:%S'' = None
                        \<and> strptime s ''%Y-%m-%d %H:%M'' = Some p))))"
  by (cases ts) (auto simp: parse_timestamp_def split: option.splits)

lemma validate_timestamp_aware:
  "validate_timestamp strptime now (PAwareDatetime d offset)
     = Inl (TypeError (''can'' @ [CHR 0x27]
                         @ ''t compare offset-naive and offset-aware datetimes''))"
  by (simp add: validate_timestamp_def parse_timestamp_def)

text \<open>
  Claim C4, as the code has it. Let the timestamp be a text or a datetime object that
  parses to an instant \<open>p\<close> without time zone. If \<open>p\<close> is strictly after \<open>now\<close>, the
  verdict is invalid, on every day. If \<open>now\<close> is any day but 29 February (of a year after
  year 10), \<^verbatim>\<open>validate_timestamp\<close> returns a verdict, and the verdict is invalid exactly
  when \<open>p\<close> is strictly after \<open>now\<close> or strictly before 00:00:00 of the day with the
  month and day of \<open>now\<close> ten years earlier. So an instant equal to \<open>now\<close> is valid, the
  instant one second after \<open>now\<close> is invalid, and every instant on the day ten years
  before \<open>now\<close> is valid, whatever its time of day.
\<close>

theorem validate_timestamp_window:
  assumes "parse_timestamp strptime ts = Inr p"
  shows
    "(dt_less now p \<longrightarrow>
        validate_timestamp strptime now ts
          = Inr (mk_verdict False ''Timestamp cannot be in the future''))
     \<and> (datetime_new (dt_year now) (dt_month now) (dt_day now) = Inr today
          \<and> 10 < dt_year now \<and> \<not> (dt_month now = 2 \<and> dt_day now = 29) \<longrightarrow>
        (\<exists>v. validate_timestamp strptime now ts = Inr v
           \<and> (valid v = (\<not> dt_less now p
                \<and> \<not> dt_less p \<lparr>dt_year = dt_year now - 10, dt_month = dt_month now,
                                dt_day = dt_day now, dt_hour = 0, dt_minute = 0, dt_second = 0,
                                dt_microsecond = 0\<rparr>))
           \<and> (p = now \<longrightarrow> valid v)
           \<and> (p = now\<lparr>dt_second := dt_second now + 1\<rparr> \<longrightarrow> \<not> valid v)
           \<and> (dt_year p = dt_year now - 10 \<and> dt_month p = dt_month now \<and> dt_day p = dt_day now
                \<and> 0 \<le> dt_hour p \<and> 0 \<le> dt_minute p \<and> 0 \<le> dt_second p
                \<and> 0 \<le> dt_microsecond p
              \<longrightarrow> valid v)))"
proof (intro conjI impI)
  assume "dt_less now p"
  with assms show "validate_timestamp strptime now ts
          = Inr (mk_verdict False ''Timestamp cannot be in the future'')"
    by (rule validate_timestamp_future)
next
  assume day: "datetime_new (dt_year now) (dt_month now) (dt_day now) = Inr today
          \<and> 10 < dt_year now \<and> \<not> (dt_month now = 2 \<and> dt_day now = 29)"
  let ?t = "\<lparr>dt_year = dt_year now - 10, dt_month = dt_month now, dt_day = dt_day now,
             dt_hour = 0, dt_minute = 0, dt_second = 0, dt_microsecond = 0\<rparr>"
  let ?v = "if dt_less now p then mk_verdict False ''Timestamp cannot be in the future''
            else if dt_less p ?t
              then mk_verdict False ''Timestamp cannot be more than 10 years ago''
            else (mk_verdict True ''Valid timestamp'')\<lparr>parsed_timestamp := Some (PDatetime p)\<rparr>"
  from day have bound: "datetime_new (dt_year now - 10) (dt_month now) (dt_day now) = Inr ?t"
    by (intro datetime_new_ten_years_before) auto
  have run: "validate_timestamp strptime now ts = Inr ?v"
    using validate_timestamp_parsed [OF assms bound] .
  have iff: "valid ?v = (\<not> dt_less now p \<and> \<not> dt_less p ?t)"
    by (simp add: mk_verdict_def)
  have old: "\<not> dt_less now ?t"
    by (simp add: dt_less_def dt_key_def)
  have same: "p = now \<longrightarrow> valid ?v"
    unfolding iff using old by (simp add: dt_less_irrefl)
  have later: "p = now\<lparr>dt_second := dt_second now + 1\<rparr> \<longrightarrow> \<not> valid ?v"
    unfolding iff by (simp add: dt_less_def dt_key_def)
  have on_day: "dt_year p = dt_year now - 10 \<and> dt_month p = dt_month now \<and> dt_day p = dt_day now
          \<and> 0 \<le> dt_hour p \<and> 0 \<le> dt_minute p \<and> 0 \<le> dt_second p \<and> 0 \<le> dt_microsecond p
        \<longrightarrow> valid ?v"
    unfolding iff by (auto simp: dt_less_def dt_key_def)
  from run iff same later on_day
  show "\<exists>v. validate_timestamp strptime now ts = Inr v
           \<and> (valid v = (\<not> dt_less now p \<and> \<not> dt_less p ?t))
           \<and> (p = now \<longrightarrow> valid v)
           \<and> (p = now\<lparr>dt_second := dt_second now + 1\<rparr> \<longrightarrow> \<not> valid v)
           \<and> (dt_year p = dt_year now - 10 \<and> dt_month p = dt_month now \<and> dt_day p = dt_day now
                \<and> 0 \<le> dt_hour p \<and> 0 \<le> dt_minute p \<and> 0 \<le> dt_second p
                \<and> 0 \<le> dt_microsecond p
              \<longrightarrow> valid v)"
    by blast
qed

theorem validate_timestamp_window_witness:
  "parse_timestamp no_strptime
        (PDatetime \<lparr>dt_year = 2014, dt_month = 6, dt_day = 14, dt_hour = 23, dt_minute = 59,
                     dt_second = 59, dt_microsecond = 0\<rparr>)
     = Inr \<lparr>dt_year = 2014, dt_month = 6, dt_day = 14, dt_hour = 23, dt_minute = 59,
             dt_second = 59, dt_microsecond = 0\<rparr>
   \<and> datetime_new 2024 6 15
     = Inr \<lparr>dt_year = 2024, dt_month = 6, dt_day = 15, dt_hour = 0, dt_minute = 0,
             dt_second = 0, dt_microsecond = 0\<rparr>
   \<and> (\<exists>v. validate_timestamp no_strptime
              \<lparr>dt_year = 2024, dt_month = 6, dt_day = 15, dt_hour = 12, dt_minute = 0,
                dt_second = 0, dt_microsecond = 0\<rparr>
              (PDatetime \<lparr>dt_year = 2014, dt_month = 6, dt_day = 14, dt_hour = 23,
                           dt_minute = 59, dt_second = 59, dt_microsecond = 0\<rparr>) = Inr v
            \<and> \<not> valid v)
   \<and> parse_timestamp no_strptime
        (PDatetime \<lparr>dt_year = 2024, dt_month = 3, dt_day = 1, dt_hour = 0, dt_minute = 0,
                     dt_second = 0, dt_microsecond = 0\<rparr>)
     = Inr \<lparr>dt_year = 2024, dt_month = 3, dt_day = 1, dt_hour = 0, dt_minute = 0,
             dt_second = 0, dt_microsecond = 0\<rparr>
   \<and> dt_less
        \<lparr>dt_year = 2024, dt_month = 2, dt_day = 29, dt_hour = 12, dt_minute = 0,
          dt_second = 0, dt_microsecond = 0\<rparr>
        \<lparr>dt_year = 2024, dt_month = 3, dt_day = 1, dt_hour = 0, dt_minute = 0,
          dt_second = 0, dt_microsecond = 0\<rparr>
   \<and> validate_timestamp no_strptime
        \<lparr>dt_year = 2024, dt_month = 2, dt_day = 29, dt_hour = 12, dt_minute = 0,
          dt_second = 0, dt_microsecond = 0\<rparr>
        (PDatetime \<lparr>dt_year = 2024, dt_month = 3, dt_day = 1, dt_hour = 0, dt_minute = 0,
                     dt_second = 0, dt_microsecond = 0\<rparr>)
      = Inr (mk_verdict False ''Timestamp cannot be in the future'')"
proof -
  let ?p = "\<lparr>dt_year = 2014, dt_month = 6, dt_day = 14, dt_hour = 23, dt_minute = 59,
             dt_second = 59, dt_microsecond = 0\<rparr>"
  let ?q = "\<lparr>dt_year = 2024, dt_month = 3, dt_day = 1, dt_hour = 0, dt_minute = 0,
             dt_second = 0, dt_microsecond = 0\<rparr>"
  have parse: "parse_timestamp no_strptime (PDatetime ?p) = Inr ?p"
    by (rule parse_timestamp_datetime)
  have parse': "parse_timestamp no_strptime (PDatetime ?q) = Inr ?q"
    by (rule parse_timestamp_datetime)
  have today: "datetime_new 2024 6 15
     = Inr \<lparr>dt_year = 2024, dt_month = 6, dt_day = 15, dt_hour = 0, dt_minute = 0,
             dt_second = 0, dt_microsecond = 0\<rparr>"
    by (simp add: datetime_new_def days_in_month_def)
  show ?thesis
    using parse parse' today
      validate_timestamp_window
        [OF parse,
         of "\<lparr>dt_year = 2024, dt_month = 6, dt_day = 15, dt_hour = 12, dt_minute = 0,
               dt_second = 0, dt_microsecond = 0\<rparr>"
            "\<lparr>dt_year = 2024, dt_month = 6, dt_day = 15, dt_hour = 0, dt_minute = 0,
               dt_second = 0, dt_microsecond = 0\<rparr>"]
      validate_timestamp_window
        [OF parse',
         of "\<lparr>dt_year = 2024, dt_month = 2, dt_day = 29, dt_hour = 12, dt_minute = 0,
               dt_second = 0, dt_microsecond = 0\<rparr>"]
    by (simp add: dt_less_def dt_key_def)
qed

text \<open>
  The claim as stated fails. At 12:00:00 on 15 June 2024 the instant 08:00:00 on
  15 June 2014 is before the same time of day ten years earlier, yet the code accepts it.
\<close>

theorem validate_timestamp_ten_years_counterexample:
  "dt_less
     \<lparr>dt_year = 2014, dt_month = 6, dt_day = 15, dt_hour = 8, dt_minute = 0, dt_second = 0,
       dt_microsecond = 0\<rparr>
     \<lparr>dt_year = 2024 - 10, dt_month = 6, dt_day = 15, dt_hour = 12, dt_minute = 0,
       dt_second = 0, dt_microsecond = 0\<rparr>
   \<and> validate_timestamp no_strptime
       \<lparr>dt_year = 2024, dt_month = 6, dt_day = 15, dt_hour = 12, dt_minute = 0, dt_second = 0,
         dt_microsecond = 0\<rparr>
       (PDatetime \<lparr>dt_year = 2014, dt_month = 6, dt_day = 15, dt_hour = 8, dt_minute = 0,
                    dt_second = 0, dt_microsecond = 0\<rparr>)
     = Inr ((mk_verdict True ''Valid timestamp'')
              \<lparr>parsed_timestamp :=
                 Some (PDatetime \<lparr>dt_year = 2014, dt_month = 6, dt_day = 15, dt_hour = 8,
                                   dt_minute = 0, dt_second = 0, dt_microsecond = 0\<rparr>)\<rparr>)"
  by (simp add: validate_timestamp_def parse_timestamp_def try_bind_def datetime_new_def
      days_in_month_def dt_less_def dt_key_def)

text \<open>
  Claim C5. A validator should always return a verdict. On 29 February the call
  \<^verbatim>\<open>datetime(now.year - 10, now.month, now.day)\<close> names a day that does not exist, since
  the year ten years before a leap year is never a leap year: for every timestamp that
  parses and is not in the future, \<^verbatim>\<open>validate_timestamp\<close> raises \<^verbatim>\<open>ValueError\<close>.
\<close>

theorem validate_timestamp_raises_on_leap_day:
  assumes "is_leap (dt_year now)" "10 < dt_year now" "dt_year now \<le> 9999"
    and "dt_month now = 2" "dt_day now = 29"
    and "parse_timestamp strptime ts = Inr p" "\<not> dt_less now p"
  shows "validate_timestamp strptime now ts = Inl (ValueError ''day is out of range for month'')"
  using assms datetime_new_leap_day [of "dt_year now"]
  by (simp add: validate_timestamp_def try_bind_def)

theorem validate_timestamp_raises_on_leap_day_witness:
  "is_leap 2024
   \<and> \<not> dt_less
        \<lparr>dt_year = 2024, dt_month = 2, dt_day = 29, dt_hour = 12, dt_minute = 0, dt_second = 0,
          dt_microsecond = 0\<rparr>
        \<lparr>dt_year = 2024, dt_month = 2, dt_day = 28, dt_hour = 12, dt_minute = 0, dt_second = 0,
          dt_microsecond = 0\<rparr>
   \<and> validate_timestamp no_strptime
        \<lparr>dt_year = 2024, dt_month = 2, dt_day = 29, dt_hour = 12, dt_minute = 0, dt_second = 0,
          dt_microsecond = 0\<rparr>
        (PDatetime \<lparr>dt_year = 2024, dt_month = 2, dt_day = 28, dt_hour = 12, dt_minute = 0,
                     dt_second = 0, dt_microsecond = 0\<rparr>)
      = Inl (ValueError ''day is out of range for month'')"
proof -
  have leap: "is_leap 2024"
    by (simp add: is_leap_def)
  show ?thesis
    using leap
      validate_timestamp_raises_on_leap_day
        [of "\<lparr>dt_year = 2024, dt_month = 2, dt_day = 29, dt_hour = 12, dt_minute = 0,
               dt_second = 0, dt_microsecond = 0\<rparr>"
            no_strptime
            "PDatetime \<lparr>dt_year = 2024, dt_month = 2, dt_day = 28, dt_hour = 12,
                         dt_minute = 0, dt_second = 0, dt_microsecond = 0\<rparr>"
            "\<lparr>dt_year = 2024, dt_month = 2, dt_day = 28, dt_hour = 12, dt_minute = 0,
               dt_second = 0, dt_microsecond = 0\<rparr>"]
    by (simp add: parse_timestamp_datetime dt_less_def dt_key_def)
qed

section \<open>Properties of the table validator\<close>
















section \<open>Properties of the store\<close>

subsection \<open>Loading\<close>

text \<open>
  \<^verbatim>\<open>load_data\<close> always returns a table with the seven columns of the handler; a file
  that pandas reads back with these columns is loaded as pandas reads it.
\<close>

lemma columns_backfill_column: "set (columns df) \<subseteq> set (columns (backfill_column df c))"
  by (auto simp: backfill_column_def)

lemma column_in_backfill_column: "c \<in> set (columns (backfill_column df c))"
  by (auto simp: backfill_column_def)

lemma columns_backfill_mono:
  "set (columns df) \<subseteq> set (columns (foldl backfill_column df cs))"
proof (induction cs arbitrary: df)
  case Nil
  then show ?case by simp
next
  case (Cons c cs)
  show ?case
    using Cons.IH [of "backfill_column df c"] columns_backfill_column [of df c] by auto
qed

lemma columns_backfill_all:
  "set cs \<subseteq> set (columns (foldl backfill_column df cs))"
proof (induction cs arbitrary: df)
  case Nil
  then show ?case by simp
next
  case (Cons c cs)
  have "c \<in> set (columns (foldl backfill_column (backfill_column df c) cs))"
    using columns_backfill_mono [of "backfill_column df c" cs]
      column_in_backfill_column [of c df] by blast
  with Cons.IH [of "backfill_column df c"] show ?case by simp
qed

lemma backfill_present:
  "set cs \<subseteq> set (columns df) \<Longrightarrow> foldl backfill_column df cs = df"
  by (induction cs arbitrary: df) (auto simp: backfill_column_def)

lemma load_data_columns: "set self_columns \<subseteq> set (columns (load_data pd s))"
  by (cases s) (auto simp: load_data_def empty_frame_def columns_backfill_all simp del: set_simps)

lemma load_data_columns_nonempty: "columns (load_data pd s) \<noteq> []"
  using load_data_columns [of pd s] by (auto simp: self_columns_def)

lemma load_data_Csv:
  "set self_columns \<subseteq> set (columns (read_back pd df)) \<Longrightarrow> load_data pd (Csv df) = read_back pd df"
  by (simp add: load_data_def backfill_present)

lemma load_data_Missing: "load_data pd Missing = empty_frame"
  by (simp add: load_data_def)

lemma entry_dict_keys: "map fst (entry_dict r) = self_columns"
  by (simp add: entry_dict_def self_columns_def)

lemma concat_entry_record:
  assumes "columns df = self_columns"
  shows "concat_entry df (entry_dict r) = \<lparr>columns = self_columns, rows = rows df @ [map_of (entry_dict r)]\<rparr>"
  by (simp add: concat_entry_def entry_dict_keys assms)

lemma getitem_entry_person_id: "getitem (entry_dict r) ''person_id'' = Inr (PStr (rec_person_id r))"
  by (simp add: getitem_def entry_dict_def)

lemma duplicate_any_entry:
  "duplicate_any df (entry_dict r) =
     Inr (list_ex (\<lambda>stored. py_eq (cell stored ''person_id'') (PStr (rec_person_id r))
                         \<and> py_eq (cell stored ''timestamp'') (PStr (rec_timestamp r))) (rows df))"
  by (simp add: duplicate_any_def entry_dict_def getitem_def try_bind_def)

text \<open>
  A store without rows: no file, or the file with the header only that the handler
  creates when it starts. The first record is written as the only row.
\<close>

lemma load_data_header_only:
  "read_back pd empty_frame = empty_frame \<Longrightarrow> load_data pd (Csv empty_frame) = empty_frame"
  by (simp add: load_data_Csv empty_frame_def)

lemma add_entry_first:
  "load_data pd s = empty_frame \<Longrightarrow>
   add_entry pd s (entry_dict r) = (Csv (written_table r), True)"
  by (simp add: add_entry_def Let_def df_empty_def empty_frame_def
      concat_entry_record getitem_entry_person_id written_table_def)

lemma load_digits:
  assumes "read_back pd (written_table digits_entry) = digits_reread"
  shows "load_data pd (Csv (written_table digits_entry)) = digits_reread"
  using assms by (simp add: load_data_Csv digits_reread_def)

lemma load_example:
  assumes "read_back pd (written_table example_entry) = example_reread"
  shows "load_data pd (Csv (written_table example_entry)) = example_reread"
  using assms by (simp add: load_data_Csv example_reread_def)

text \<open>
  Without the key \<^verbatim>\<open>person_id\<close> and without a stored row, \<^verbatim>\<open>add_entry\<close> writes the
  row and then returns false: the message it logs after the write reads the key.
\<close>

lemma add_entry_without_person_id:
  "map_of entry_data ''person_id'' = None \<Longrightarrow>
   add_entry pd Missing entry_data = (Csv (concat_entry empty_frame entry_data), False)"
  by (simp add: add_entry_def Let_def load_data_Missing df_empty_def empty_frame_def
      getitem_def)

text \<open>The library of the examples on the tables of the examples.\<close>

lemma example_load_header_only:
  "load_data example_pandas (Csv empty_frame) = empty_frame"
  by (rule load_data_header_only) (simp add: example_pandas_def empty_frame_def)

lemma example_read_back_digits:
  "read_back example_pandas (written_table digits_entry) = digits_reread"
  by (simp add: example_pandas_def written_table_def digits_reread_def entry_dict_def
      digits_entry_def example_entry_def fun_eq_iff is_digit_def nat_of_digits_def)

lemma example_read_back_example:
  "read_back example_pandas (written_table example_entry) = example_reread"
  by (simp add: example_pandas_def written_table_def example_reread_def entry_dict_def
      example_entry_def fun_eq_iff is_digit_def nat_of_digits_def)

text \<open>The library of the examples on a table it has read back itself.\<close>

lemma read_back_cell_idem: "read_back_cell (read_back_cell v) = read_back_cell v"
  by (cases v) auto

lemma example_read_back_idem:
  "read_back example_pandas (read_back example_pandas df) = read_back example_pandas df"
  by (simp add: example_pandas_def comp_def option.map_comp read_back_cell_idem cong: map_cong)








subsection \<open>Adding an entry\<close>

text \<open>
  Claim C1. Calling \<^verbatim>\<open>add_entry(r)\<close> twice with the same record should store one row
  and return false the second time. The code, for the record of the person \<^verbatim>\<open>12345\<close>
  and a store without rows: the first call writes the row. When pandas reads the file back with the
  id as the integer 12345, as it does for a column of digits, the duplicate check of the
  second call compares that integer with the text \<^verbatim>\<open>'12345'\<close>, finds no duplicate,
  writes a second row and returns true.
\<close>

theorem add_entry_twice_digits:
  assumes "load_data pd s = empty_frame"
    and "read_back pd (written_table digits_entry) = digits_reread"
  shows "add_entry pd s (entry_dict digits_entry) = (Csv (written_table digits_entry), True)
     \<and> add_entry pd (Csv (written_table digits_entry)) (entry_dict digits_entry)
         = (Csv \<lparr>columns = self_columns,
                 rows = rows digits_reread @ [map_of (entry_dict digits_entry)]\<rparr>, True)
     \<and> length (rows digits_reread @ [map_of (entry_dict digits_entry)]) = 2"
proof -
  have no_dup: "\<not> list_ex (\<lambda>stored. py_eq (cell stored ''person_id'') (PStr (rec_person_id digits_entry))
                         \<and> py_eq (cell stored ''timestamp'') (PStr (rec_timestamp digits_entry)))
                  (rows digits_reread)"
    by (simp add: digits_reread_def cell_def py_eq_def)
  have cols: "columns digits_reread = self_columns"
    by (simp add: digits_reread_def)
  have second: "add_entry pd (Csv (written_table digits_entry)) (entry_dict digits_entry)
         = (Csv \<lparr>columns = self_columns,
                 rows = rows digits_reread @ [map_of (entry_dict digits_entry)]\<rparr>, True)"
    using no_dup
    by (simp add: add_entry_def Let_def load_digits [OF assms(2)] duplicate_any_entry
        concat_entry_record [OF cols] getitem_entry_person_id df_empty_def)
  have two: "length (rows digits_reread @ [map_of (entry_dict digits_entry)]) = 2"
    by (simp add: digits_reread_def)
  from add_entry_first [OF assms(1)] second two show ?thesis by blast
qed

theorem add_entry_twice_digits_witness:
  "load_data example_pandas (Csv empty_frame) = empty_frame
   \<and> read_back example_pandas (written_table digits_entry) = digits_reread
   \<and> snd (add_entry example_pandas (Csv empty_frame) (entry_dict digits_entry)) = True
   \<and> snd (add_entry example_pandas
            (fst (add_entry example_pandas (Csv empty_frame) (entry_dict digits_entry)))
            (entry_dict digits_entry)) = True"
  using add_entry_twice_digits [OF example_load_header_only example_read_back_digits]
    example_load_header_only example_read_back_digits
  by simp

text \<open>
  Claim C7. After \<^verbatim>\<open>add_entry(r)\<close> returned true, \<^verbatim>\<open>load_data()\<close> should contain a row
  equal to \<open>r\<close> in every field. The code, for the record of the first scenario, whose
  notes are empty, and a store without rows: \<^verbatim>\<open>add_entry\<close> returns true. When pandas reads the file
  back with the empty notes as a missing value, as it does for an empty field,
  \<^verbatim>\<open>load_data()\<close> returns one row whose notes are NaN, and no row equal to the record.
\<close>

theorem add_entry_round_trip_empty_notes:
  assumes "load_data pd s = empty_frame"
    and "read_back pd (written_table example_entry) = example_reread"
  shows "add_entry pd s (entry_dict example_entry) = (Csv (written_table example_entry), True)
     \<and> load_data pd (Csv (written_table example_entry)) = example_reread
     \<and> map (\<lambda>stored. stored ''notes'') (rows example_reread) = [Some (PFloat NaN)]
     \<and> \<not> list_ex (\<lambda>stored. row_equals stored example_entry)
            (rows (load_data pd (Csv (written_table example_entry))))"
proof -
  have nan: "map (\<lambda>stored. stored ''notes'') (rows example_reread) = [Some (PFloat NaN)]"
    by (simp add: example_reread_def)
  have none: "\<not> list_ex (\<lambda>stored. row_equals stored example_entry) (rows example_reread)"
    by (simp add: example_reread_def row_equals_def)
  from add_entry_first [OF assms(1)] load_example [OF assms(2)] nan none
  show ?thesis by simp
qed

theorem add_entry_round_trip_empty_notes_witness:
  "load_data example_pandas (Csv empty_frame) = empty_frame
   \<and> read_back example_pandas (written_table example_entry) = example_reread
   \<and> snd (add_entry example_pandas (Csv empty_frame) (entry_dict example_entry)) = True
   \<and> \<not> list_ex (\<lambda>stored. row_equals stored example_entry)
         (rows (load_data example_pandas
                  (fst (add_entry example_pandas (Csv empty_frame) (entry_dict example_entry)))))"
proof -
  note t = add_entry_round_trip_empty_notes
             [OF example_load_header_only example_read_back_example]
  from t have a: "add_entry example_pandas (Csv empty_frame) (entry_dict example_entry)
      = (Csv (written_table example_entry), True)"
    by blast
  from t have b: "\<not> list_ex (\<lambda>stored. row_equals stored example_entry)
            (rows (load_data example_pandas (Csv (written_table example_entry))))"
    by blast
  from b show ?thesis
    unfolding a fst_conv snd_conv
    using example_load_header_only example_read_back_example by blast
qed

subsection \<open>Deleting a person\<close>

text \<open>
  Claim C8. \<^verbatim>\<open>delete_person_data(p)\<close> should remove the rows of the person \<open>p\<close>. The
  code, after the record of the person \<^verbatim>\<open>12345\<close> was added to a store without rows:
  when pandas reads the file back with the id as the integer 12345,
  \<^verbatim>\<open>delete_person_data('12345')\<close> compares that integer with the text, removes nothing,
  writes the one row again and returns true.
\<close>

theorem delete_person_data_digits:
  assumes "load_data pd s = empty_frame"
    and "read_back pd (written_table digits_entry) = digits_reread"
  shows "add_entry pd s (entry_dict digits_entry) = (Csv (written_table digits_entry), True)
     \<and> delete_person_data pd (Csv (written_table digits_entry)) (PStr ''12345'')
         = (Csv digits_reread, True)
     \<and> length (rows digits_reread) = 1
     \<and> rec_person_id digits_entry = ''12345''"
proof -
  have keep: "filter (\<lambda>r. py_ne (cell r ''person_id'') (PStr ''12345'')) (rows digits_reread)
      = rows digits_reread"
    by (simp add: digits_reread_def cell_def py_ne_def py_eq_def)
  have del: "delete_person_data pd (Csv (written_table digits_entry)) (PStr ''12345'')
         = (Csv digits_reread, True)"
    by (simp add: delete_person_data_def Let_def load_digits [OF assms(2)] keep)
  have one: "length (rows digits_reread) = 1"
    by (simp add: digits_reread_def)
  have pid: "rec_person_id digits_entry = ''12345''"
    by (simp add: digits_entry_def)
  from add_entry_first [OF assms(1)] del one pid show ?thesis by blast
qed

theorem delete_person_data_digits_witness:
  "load_data example_pandas (Csv empty_frame) = empty_frame
   \<and> read_back example_pandas (written_table digits_entry) = digits_reread
   \<and> delete_person_data example_pandas
        (fst (add_entry example_pandas (Csv empty_frame) (entry_dict digits_entry)))
        (PStr ''12345'')
      = (Csv digits_reread, True)"
  using delete_person_data_digits [OF example_load_header_only example_read_back_digits]
    example_load_header_only example_read_back_digits
  by simp

subsection \<open>Updating an entry\<close>




lemma update_entry_refused:
  "update_loop pd (nat i) updated_data (load_data pd s) = Inl e \<Longrightarrow>
   update_entry pd s i updated_data = (s, False)"
  by (simp add: update_entry_def Let_def)


text \<open>
  When pandas refuses the text for the column of notes that it has read back as numbers
  (all of them NaN), \<^verbatim>\<open>update_entry\<close> returns false and leaves the file as it was.
\<close>

lemma update_entry_notes_refused:
  assumes "read_back pd (written_table example_entry) = example_reread"
    and "loc_set pd example_reread 0 ''notes'' (PStr ''feeling fine'') = Inl e"
  shows "update_entry pd (Csv (written_table example_entry)) 0 [(''notes'', PStr ''feeling fine'')]
           = (Csv (written_table example_entry), False)"
proof -
  have one: "rows example_reread \<noteq> []" and col: "''notes'' \<in> set (columns example_reread)"
    by (simp_all add: example_reread_def self_columns_def)
  show ?thesis
    using one col
    by (simp add: update_entry_def Let_def load_example [OF assms(1)] assms(2) try_bind_def)
qed




end
